theory Spec2Isabelle
  imports Main "HOL-Library.Word" "HOL-Library.Sublist"
begin

section \<open>JavaScript strings\<close>

text \<open>
  A JavaScript string is a sequence of UTF-16 code units. The Chinese terms of the
  filename table are characters of the Basic Multilingual Plane, one code unit each.
  String literals of the source that are plain ASCII are written \<open>ascii ''...''\<close>.
\<close>

type_synonym code_unit = "16 word"
type_synonym jstring = "code_unit list"

definition ascii :: "string \<Rightarrow> jstring" where
  "ascii s = map of_char s"

abbreviation (input) slash :: code_unit where "slash \<equiv> 0x2F"
abbreviation (input) dot :: code_unit where "dot \<equiv> 0x2E"
abbreviation (input) star :: code_unit where "star \<equiv> 0x2A"
abbreviation (input) hyphen :: code_unit where "hyphen \<equiv> 0x2D"
abbreviation (input) backslash :: code_unit where "backslash \<equiv> 0x5C"
abbreviation (input) lbracket :: code_unit where "lbracket \<equiv> 0x5B"

text \<open>\<open>String.prototype.startsWith\<close> and \<open>endsWith\<close> (position argument absent).\<close>

definition startsWith :: "jstring \<Rightarrow> jstring \<Rightarrow> bool" where
  "startsWith s p = (take (length p) s = p)"

definition endsWith :: "jstring \<Rightarrow> jstring \<Rightarrow> bool" where
  "endsWith s p = (length p \<le> length s \<and> drop (length s - length p) s = p)"

section \<open>Path filter of the webhook handler (route.ts)\<close>

subsection \<open>The three replacements of matchPath\<close>

text \<open>
  \<open>pattern.replace(/\*\*/g, '.*')\<close>: scanning left to right, every pair of adjacent
  stars becomes a dot and a star; matches do not overlap.
\<close>

fun replace_star_star :: "jstring \<Rightarrow> jstring" where
  "replace_star_star (a # b # xs) =
     (if a = star \<and> b = star then dot # star # replace_star_star xs
      else a # replace_star_star (b # xs))"
| "replace_star_star xs = xs"

text \<open>
  \<open>s.replace(/c/g, r)\<close> for a one-character regex: every occurrence of the code unit
  is replaced. It is used for \<open>/\*/g \<rightarrow> '[^/]*'\<close> and \<open>/\./g \<rightarrow> '\\.'\<close>.
\<close>

definition replace_char :: "code_unit \<Rightarrow> jstring \<Rightarrow> jstring \<Rightarrow> jstring" where
  "replace_char c r s = concat (map (\<lambda>x. if x = c then r else [x]) s)"

text \<open>The local constant \<open>regexPattern\<close>: the three replacements in the source's order.\<close>

definition regexPattern :: "jstring \<Rightarrow> jstring" where
  "regexPattern pattern =
     replace_char dot [backslash, dot]
       (replace_char star (ascii ''[^/]*'')
         (replace_star_star pattern))"

subsection \<open>The regular expression\<close>

text \<open>
  \<open>new RegExp('^' + regexPattern + '$').test(path)\<close>. On the fragment of regular
  expression syntax that glob patterns give rise to (a literal code unit, the escaped
  dot \<open>\.\<close>, the starred class \<open>[^/]*\<close>), the expression is interpreted here:
  \<open>parse_regex\<close> reads the source, \<open>rx_match\<close> matches. A source with any other
  syntax character (\<open>\ ^ $ . * + ? ( ) [ ] { } |\<close> at the start of an atom) is handed
  to the engine of the JavaScript runtime, a parameter of the model (\<open>RegExp_test\<close>):
  it receives the anchored source and the path, and answers \<open>None\<close> when the
  constructor throws a SyntaxError, \<open>Some b\<close> when \<open>test\<close> returns \<open>b\<close>.
\<close>

type_synonym regexp_engine = "jstring \<Rightarrow> jstring \<Rightarrow> bool option"

datatype rx_atom = Lit code_unit | NotSlashStar

definition is_syntax_char :: "code_unit \<Rightarrow> bool" where
  "is_syntax_char c = (c \<in> set (ascii ''^$.*+?()[]{}|'') \<or> c = backslash)"

fun parse_regex :: "jstring \<Rightarrow> rx_atom list option" where
  "parse_regex [] = Some []"
| "parse_regex (c # cs) =
     (if c = backslash \<and> startsWith cs [dot]
        then map_option (Cons (Lit dot)) (parse_regex (drop 1 cs))
      else if c = lbracket \<and> startsWith cs (ascii ''^/]*'')
        then map_option (Cons NotSlashStar) (parse_regex (drop 4 cs))
      else if is_syntax_char c then None
      else map_option (Cons (Lit c)) (parse_regex cs))"

text \<open>
  Anchored matching (\<open>^...$\<close>, no flags): the atoms must consume the whole path.
  \<open>[^/]*\<close> consumes any number of code units other than the slash; whether the
  engine tries the long or the short alternative first does not change \<open>test\<close>.
\<close>

fun rx_match :: "rx_atom list \<Rightarrow> jstring \<Rightarrow> bool" where
  "rx_match [] s = (s = [])"
| "rx_match (Lit c # r) [] = False"
| "rx_match (Lit c # r) (d # t) = (if d = c then rx_match r t else False)"
| "rx_match (NotSlashStar # r) [] = rx_match r []"
| "rx_match (NotSlashStar # r) (d # t) =
     (if rx_match r (d # t) then True
      else if d = slash then False
      else rx_match (NotSlashStar # r) t)"

text \<open>\<open>matchPath\<close>: \<open>None\<close> is the SyntaxError of \<open>new RegExp\<close>, which the
  function does not catch.\<close>

definition matchPath :: "regexp_engine \<Rightarrow> jstring \<Rightarrow> jstring \<Rightarrow> bool option" where
  "matchPath RegExp_test path pattern =
     (case parse_regex (regexPattern pattern) of
        Some atoms \<Rightarrow> Some (rx_match atoms path)
      | None \<Rightarrow> RegExp_test (ascii ''^'' @ regexPattern pattern @ ascii ''$'') path)"

subsection \<open>filterFilesToTranslate\<close>

text \<open>
  \<open>patterns.some(pattern => matchPath(file, pattern))\<close>: the patterns are tried in
  order and the first match ends the search; an exception of an earlier pattern ends it too.
\<close>

fun some_matchPath :: "regexp_engine \<Rightarrow> jstring \<Rightarrow> jstring list \<Rightarrow> bool option" where
  "some_matchPath rx file [] = Some False"
| "some_matchPath rx file (p # ps) =
     (case matchPath rx file p of
        None \<Rightarrow> None
      | Some True \<Rightarrow> Some True
      | Some False \<Rightarrow> some_matchPath rx file ps)"

text \<open>The callback given to \<open>files.filter\<close>; \<open>null\<close> pattern lists are \<open>None\<close>.\<close>

definition keep_file ::
  "regexp_engine \<Rightarrow> jstring list option \<Rightarrow> jstring list option \<Rightarrow> jstring \<Rightarrow> bool option" where
  "keep_file rx includePaths excludePaths file =
     (if \<not> endsWith file (ascii ''.md'') \<and> \<not> endsWith file (ascii ''.mdx'') then Some False
      else if startsWith file (ascii ''translations/'') then Some False
      else case (case excludePaths of None \<Rightarrow> Some False
                 | Some ex \<Rightarrow> some_matchPath rx file ex) of
             None \<Rightarrow> None
           | Some True \<Rightarrow> Some False
           | Some False \<Rightarrow>
               (case includePaths of
                  None \<Rightarrow> Some True
                | Some inc \<Rightarrow> if inc \<noteq> [] then some_matchPath rx file inc else Some True))"

text \<open>\<open>Array.prototype.filter\<close> with a callback that may throw (\<open>None\<close>).\<close>

fun filter_throwing :: "('a \<Rightarrow> bool option) \<Rightarrow> 'a list \<Rightarrow> 'a list option" where
  "filter_throwing f [] = Some []"
| "filter_throwing f (x # xs) =
     (case f x of
        None \<Rightarrow> None
      | Some b \<Rightarrow>
          (case filter_throwing f xs of
             None \<Rightarrow> None
           | Some ys \<Rightarrow> Some (if b then x # ys else ys)))"

text \<open>The filter returns the list, or throws the SyntaxError of a pattern (\<open>None\<close>).\<close>

definition filterFilesToTranslate ::
  "regexp_engine \<Rightarrow> jstring list \<Rightarrow> jstring list option \<Rightarrow> jstring list option
     \<Rightarrow> jstring list option" where
  "filterFilesToTranslate rx files includePaths excludePaths =
     filter_throwing (keep_file rx includePaths excludePaths) files"

subsection \<open>The path filter as the specification words it\<close>

text \<open>
  Glob syntax of the specification: \<open>**\<close> matches across path separators, \<open>*\<close>
  matches within one segment, every other character (the dot too) stands for itself,
  and the whole pattern must match the whole path. \<open>*\<close> consumes a prefix of the rest
  of the path that has no slash in it, \<open>**\<close> any prefix.
\<close>

datatype glob_atom = GChar code_unit | GStar | GStarStar

fun glob_atoms :: "jstring \<Rightarrow> glob_atom list" where
  "glob_atoms (a # b # xs) =
     (if a = star \<and> b = star then GStarStar # glob_atoms xs
      else (if a = star then GStar else GChar a) # glob_atoms (b # xs))"
| "glob_atoms [a] = [if a = star then GStar else GChar a]"
| "glob_atoms [] = []"

fun spec_glob_match :: "glob_atom list \<Rightarrow> jstring \<Rightarrow> bool" where
  "spec_glob_match [] path = (path = [])"
| "spec_glob_match (GChar c # g) path =
     (case path of [] \<Rightarrow> False | d # t \<Rightarrow> d = c \<and> spec_glob_match g t)"
| "spec_glob_match (GStar # g) path =
     list_ex (\<lambda>n. spec_glob_match g (drop n path))
       [0 ..< Suc (length (takeWhile (\<lambda>x. x \<noteq> slash) path))]"
| "spec_glob_match (GStarStar # g) path =
     list_ex (\<lambda>n. spec_glob_match g (drop n path)) [0 ..< Suc (length path)]"

definition glob_matches :: "jstring \<Rightarrow> jstring \<Rightarrow> bool" where
  "glob_matches path pattern = spec_glob_match (glob_atoms pattern) path"








section \<open>Filename transliteration (filename-translator.ts)\<close>

subsection \<open>The term table\<close>

text \<open>
  \<open>FILENAME_MAPPING\<close>, in the order of the source (the order \<open>Object.entries\<close>
  enumerates it in; no key occurs twice). Keys are Chinese terms, given by their code
  units; values are ASCII slugs.
\<close>

definition FILENAME_MAPPING :: "(jstring \<times> jstring) list" where
  "FILENAME_MAPPING = [
    ([0x81EA, 0x8FF0, 0x6587, 0x4EF6], ascii ''README''),
    ([0x8BF4, 0x660E], ascii ''README''),
    ([0x4ECB, 0x7ECD], ascii ''Introduction''),
    ([0x7B80, 0x4ECB], ascii ''Introduction''),
    ([0x6982, 0x8FF0], ascii ''Overview''),
    ([0x6982, 0x89C8], ascii ''Overview''),
    ([0x5165, 0x95E8], ascii ''Getting-Started''),
    ([0x5FEB, 0x901F, 0x5F00, 0x59CB], ascii ''Quick-Start''),
    ([0x5FEB, 0x901F, 0x5165, 0x95E8], ascii ''Quick-Start''),
    ([0x5B89, 0x88C5], ascii ''Installation''),
    ([0x5B89, 0x88C5, 0x6307, 0x5357], ascii ''Installation-Guide''),
    ([0x4F7F, 0x7528], ascii ''Usage''),
    ([0x4F7F, 0x7528, 0x6307, 0x5357], ascii ''Usage-Guide''),
    ([0x4F7F, 0x7528, 0x8BF4, 0x660E], ascii ''Usage-Guide''),
    ([0x6559, 0x7A0B], ascii ''Tutorial''),
    ([0x6307, 0x5357], ascii ''Guide''),
    ([0x914D, 0x7F6E], ascii ''Configuration''),
    ([0x914D, 0x7F6E, 0x8BF4, 0x660E], ascii ''Configuration-Guide''),
    ([0x5E38, 0x89C1, 0x95EE, 0x9898], ascii ''FAQ''),
    ([0x95EE, 0x9898], ascii ''FAQ''),
    ([0x66F4, 0x65B0, 0x65E5, 0x5FD7], ascii ''CHANGELOG''),
    ([0x53D8, 0x66F4, 0x65E5, 0x5FD7], ascii ''CHANGELOG''),
    ([0x53D8, 0x66F4, 0x8BB0, 0x5F55], ascii ''CHANGELOG''),
    ([0x8D21, 0x732E], ascii ''Contributing''),
    ([0x8D21, 0x732E, 0x6307, 0x5357], ascii ''Contributing-Guide''),
    ([0x8BB8, 0x53EF, 0x8BC1], ascii ''LICENSE''),
    ([0x534F, 0x8BAE], ascii ''LICENSE''),
    ([0x4F5C, 0x8005], ascii ''Authors''),
    ([0x7EF4, 0x62A4, 0x8005], ascii ''Maintainers''),
    ([0x81F4, 0x8C22], ascii ''Acknowledgments''),
    ([0x9E23, 0x8C22], ascii ''Acknowledgments''),
    ([0x53C2, 0x8003], ascii ''Reference''),
    ([0x53C2, 0x8003, 0x6587, 0x6863], ascii ''Reference''),
    ([0x6587, 0x6863], ascii ''Documentation''),
    ([0x63A5, 0x53E3], ascii ''API''),
    ([0x63A5, 0x53E3, 0x6587, 0x6863], ascii ''API-Documentation''),
    ([0x5F00, 0x53D1], ascii ''Development''),
    ([0x5F00, 0x53D1, 0x6307, 0x5357], ascii ''Development-Guide''),
    ([0x90E8, 0x7F72], ascii ''Deployment''),
    ([0x90E8, 0x7F72, 0x6307, 0x5357], ascii ''Deployment-Guide''),
    ([0x67B6, 0x6784], ascii ''Architecture''),
    ([0x8BBE, 0x8BA1], ascii ''Design''),
    ([0x8BBE, 0x8BA1, 0x6587, 0x6863], ascii ''Design-Document''),
    ([0x89C4, 0x8303], ascii ''Specification''),
    ([0x6807, 0x51C6], ascii ''Standard''),
    ([0x6D4B, 0x8BD5], ascii ''Testing''),
    ([0x6D4B, 0x8BD5, 0x6307, 0x5357], ascii ''Testing-Guide''),
    ([0x5B89, 0x5168], ascii ''Security''),
    ([0x5B89, 0x5168, 0x6307, 0x5357], ascii ''Security-Guide''),
    ([0x6027, 0x80FD], ascii ''Performance''),
    ([0x4F18, 0x5316], ascii ''Optimization''),
    ([0x793A, 0x4F8B], ascii ''Examples''),
    ([0x6848, 0x4F8B], ascii ''Examples''),
    ([0x6837, 0x4F8B], ascii ''Examples''),
    ([0x9644, 0x5F55], ascii ''Appendix''),
    ([0x672F, 0x8BED, 0x8868], ascii ''Glossary''),
    ([0x8BCD, 0x6C47, 0x8868], ascii ''Glossary''),
    ([0x7D22, 0x5F15], ascii ''Index''),
    ([0x76EE, 0x5F55], ascii ''Table-of-Contents''),
    ([0x8DEF, 0x7EBF, 0x56FE], ascii ''Roadmap''),
    ([0x8BA1, 0x5212], ascii ''Roadmap''),
    ([0x7248, 0x672C], ascii ''Version''),
    ([0x53D1, 0x5E03], ascii ''Release''),
    ([0x53D1, 0x5E03, 0x8BF4, 0x660E], ascii ''Release-Notes''),
    ([0x5907, 0x6CE8], ascii ''Notes''),
    ([0x7B14, 0x8BB0], ascii ''Notes''),
    ([0x603B, 0x7ED3], ascii ''Summary''),
    ([0x6458, 0x8981], ascii ''Summary''),
    ([0x80CC, 0x666F], ascii ''Background''),
    ([0x5386, 0x53F2], ascii ''History''),
    ([0x5BF9, 0x6BD4], ascii ''Comparison''),
    ([0x6BD4, 0x8F83], ascii ''Comparison''),
    ([0x529F, 0x80FD], ascii ''Features''),
    ([0x7279, 0x6027], ascii ''Features''),
    ([0x9700, 0x6C42], ascii ''Requirements''),
    ([0x4F9D, 0x8D56], ascii ''Dependencies''),
    ([0x517C, 0x5BB9, 0x6027], ascii ''Compatibility''),
    ([0x8FC1, 0x79FB], ascii ''Migration''),
    ([0x8FC1, 0x79FB, 0x6307, 0x5357], ascii ''Migration-Guide''),
    ([0x5347, 0x7EA7], ascii ''Upgrade''),
    ([0x5347, 0x7EA7, 0x6307, 0x5357], ascii ''Upgrade-Guide''),
    ([0x7F16, 0x7A0B], ascii ''Programming''),
    ([0x7F16, 0x7A0B, 0x5BFC, 0x822A], ascii ''Programming-Navigation''),
    ([0x7F16, 0x7A0B, 0x5B66, 0x4E60], ascii ''Programming-Learning''),
    ([0x5B66, 0x4E60], ascii ''Learning''),
    ([0x5B66, 0x4E60, 0x8DEF, 0x7EBF], ascii ''Learning-Path''),
    ([0x77E5, 0x8BC6], ascii ''Knowledge''),
    ([0x77E5, 0x8BC6, 0x4F53, 0x7CFB], ascii ''Knowledge-System''),
    ([0x77E5, 0x8BC6, 0x5E93], ascii ''Knowledge-Base''),
    ([0x8D44, 0x6E90], ascii ''Resources''),
    ([0x8D44, 0x6E90, 0x6C47, 0x603B], ascii ''Resource-Collection''),
    ([0x5DE5, 0x5177], ascii ''Tools''),
    ([0x5DE5, 0x5177, 0x63A8, 0x8350], ascii ''Recommended-Tools''),
    ([0x6846, 0x67B6], ascii ''Framework''),
    ([0x5E93], ascii ''Library''),
    ([0x9879, 0x76EE], ascii ''Project''),
    ([0x9879, 0x76EE, 0x4ECB, 0x7ECD], ascii ''Project-Introduction''),
    ([0x9879, 0x76EE, 0x8BF4, 0x660E], ascii ''Project-Description'')
  ]"

subsection \<open>String operations used by translateFilename\<close>

text \<open>\<open>/[^\x00-\x7F]/.test(str)\<close>: some code unit lies above 0x7F.\<close>

definition containsNonAscii :: "jstring \<Rightarrow> bool" where
  "containsNonAscii str = list_ex (\<lambda>c. 0x7F < c) str"

text \<open>
  \<open>s.split('/')\<close> and \<open>parts.join('/')\<close>. Splitting never gives the empty array:
  the empty string splits into one empty part.
\<close>

fun split_slash :: "jstring \<Rightarrow> jstring list" where
  "split_slash [] = [[]]"
| "split_slash (c # cs) =
     (if c = slash then [] # split_slash cs
      else (case split_slash cs of
              p # ps \<Rightarrow> (c # p) # ps
            | [] \<Rightarrow> [[c]]))"

fun join_slash :: "jstring list \<Rightarrow> jstring" where
  "join_slash [] = []"
| "join_slash [p] = p"
| "join_slash (p # q # ps) = p @ slash # join_slash (q # ps)"

text \<open>\<open>s.lastIndexOf(c)\<close> for a one-character string: the last position, or \<open>-1\<close>.\<close>

fun lastIndexOf :: "jstring \<Rightarrow> code_unit \<Rightarrow> int" where
  "lastIndexOf [] c = - 1"
| "lastIndexOf (x # xs) c =
     (let r = lastIndexOf xs c
      in if 0 \<le> r then r + 1 else if x = c then 0 else - 1)"

text \<open>\<open>s.includes(k)\<close>: \<open>k\<close> occurs in \<open>s\<close> as a contiguous run.\<close>

fun includes_sub :: "jstring \<Rightarrow> jstring \<Rightarrow> bool" where
  "includes_sub [] k = (k = [])"
| "includes_sub (x # xs) k = (if startsWith (x # xs) k then True else includes_sub xs k)"

text \<open>
  \<open>s.replace(k, v)\<close> with a string pattern: the first occurrence of \<open>k\<close> is replaced.
  The replacement strings of this program contain no \<open>$\<close>, so they are inserted as
  they are.
\<close>

fun replace_first :: "jstring \<Rightarrow> jstring \<Rightarrow> jstring \<Rightarrow> jstring" where
  "replace_first [] k v = (if k = [] then v else [])"
| "replace_first (x # xs) k v =
     (if startsWith (x # xs) k then v @ drop (length k) (x # xs)
      else x # replace_first xs k v)"

text \<open>\<open>.replace(/[^\x00-\x7F]+/g, '-')\<close>: each maximal run of non-ASCII code units
  becomes one hyphen.\<close>

function replace_non_ascii_runs :: "jstring \<Rightarrow> jstring" where
  "replace_non_ascii_runs [] = []"
| "replace_non_ascii_runs (c # cs) =
     (if 0x7F < c then hyphen # replace_non_ascii_runs (dropWhile (\<lambda>x. 0x7F < x) cs)
      else c # replace_non_ascii_runs cs)"
  by pat_completeness auto
termination
  by (relation "measure length") (auto simp: less_Suc_eq_le length_dropWhile_le)

text \<open>\<open>.replace(/^-+|-+$/g, '')\<close>: the leading and the trailing run of hyphens go.\<close>

definition trim_hyphens :: "jstring \<Rightarrow> jstring" where
  "trim_hyphens s =
     rev (dropWhile (\<lambda>x. x = hyphen) (rev (dropWhile (\<lambda>x. x = hyphen) s)))"

text \<open>\<open>.replace(/-+/g, '-')\<close>: each run of hyphens becomes one hyphen.\<close>

function collapse_hyphens :: "jstring \<Rightarrow> jstring" where
  "collapse_hyphens [] = []"
| "collapse_hyphens (c # cs) =
     (if c = hyphen then hyphen # collapse_hyphens (dropWhile (\<lambda>x. x = hyphen) cs)
      else c # collapse_hyphens cs)"
  by pat_completeness auto
termination
  by (relation "measure length") (auto simp: less_Suc_eq_le length_dropWhile_le)

text \<open>The chain of the three replacements, written out twice in the source
  (for the file name and for a directory name).\<close>

definition hyphenate :: "jstring \<Rightarrow> jstring" where
  "hyphenate s = collapse_hyphens (trim_hyphens (replace_non_ascii_runs s))"

text \<open>Truthiness of a table lookup: \<open>undefined\<close> and the empty string are falsy.\<close>

definition truthy :: "jstring option \<Rightarrow> bool" where
  "truthy v = (case v of None \<Rightarrow> False | Some s \<Rightarrow> s \<noteq> [])"

subsection \<open>translateFilename\<close>

text \<open>The local constants \<open>nameWithoutExt\<close> and \<open>extension\<close>, as functions of
  \<open>filename\<close>. A dot at position 0 does not start an extension.\<close>

definition nameWithoutExt :: "jstring \<Rightarrow> jstring" where
  "nameWithoutExt filename =
     (let lastDotIndex = lastIndexOf filename dot
      in if 0 < lastDotIndex then take (nat lastDotIndex) filename else filename)"

definition extension :: "jstring \<Rightarrow> jstring" where
  "extension filename =
     (let lastDotIndex = lastIndexOf filename dot
      in if 0 < lastDotIndex then drop (nat lastDotIndex) filename else [])"

text \<open>
  The loop over \<open>Object.entries(FILENAME_MAPPING)\<close>: the first entry whose key
  occurs in the name decides, and that occurrence is replaced.
\<close>

definition partial_match :: "jstring \<Rightarrow> jstring option" where
  "partial_match name =
     (case find (\<lambda>(chinese, english). includes_sub name chinese) FILENAME_MAPPING of
        None \<Rightarrow> None
      | Some (chinese, english) \<Rightarrow> Some (replace_first name chinese english))"

text \<open>
  The variable \<open>translatedName\<close> at the point where the new file name is built:
  exact lookup, else partial match, else (also when the partial match left non-ASCII
  code units) the hyphenated name, else \<open>document\<close>. The lookup
  \<open>FILENAME_MAPPING[name]\<close> is only reached for a name with a non-ASCII code unit,
  so it never hits a property inherited from \<open>Object.prototype\<close>.
\<close>

definition translatedName :: "jstring \<Rightarrow> jstring" where
  "translatedName name =
     (let looked_up = map_of FILENAME_MAPPING name;
          found = (if truthy looked_up then looked_up else partial_match name)
      in if \<not> truthy found \<or> containsNonAscii (the found)
         then (let h = hyphenate name
               in if h = [] \<or> h = [hyphen] then ascii ''document'' else h)
         else the found)"

text \<open>A directory name: \<open>FILENAME_MAPPING[part] || hyphenated || 'folder'\<close> when it
  has a non-ASCII code unit, itself otherwise.\<close>

definition translate_directory :: "jstring \<Rightarrow> jstring" where
  "translate_directory part =
     (if containsNonAscii part
      then (let looked_up = map_of FILENAME_MAPPING part
            in if truthy looked_up then the looked_up
               else if hyphenate part \<noteq> [] then hyphenate part
               else ascii ''folder'')
      else part)"

definition translateFilename :: "jstring \<Rightarrow> jstring" where
  "translateFilename originalPath =
     (let parts = split_slash originalPath;
          filename = last parts
      in if \<not> containsNonAscii (nameWithoutExt filename) then originalPath
         else (let newFilename = translatedName (nameWithoutExt filename) @ extension filename
               in join_slash (map translate_directory (butlast parts) @ [newFilename])))"

subsection \<open>getTranslatedPath\<close>

definition getTranslatedPath :: "jstring \<Rightarrow> jstring \<Rightarrow> jstring \<Rightarrow> jstring" where
  "getTranslatedPath sourcePath targetLang baseLanguage =
     (let translatedPath = (if targetLang = baseLanguage then sourcePath
                            else translateFilename sourcePath)
      in ascii ''translations/'' @ targetLang @ ascii ''/'' @ translatedPath)"

section \<open>The webhook handler (route.ts)\<close>

subsection \<open>Data\<close>

text \<open>
  The push event, with the fields of the interface \<open>PushEvent\<close>. GitHub sends a
  message with every commit of a push; the interface of the handler declares none on
  the elements of \<open>commits\<close> and the handler never reads it. It is kept here as
  \<open>commit_message\<close> so that properties of those messages can be stated.
\<close>

record repository_info =
  repository_id :: int
  full_name :: jstring
  default_branch :: jstring

record commit =
  commit_id :: jstring
  commit_message :: jstring
  added :: "jstring list"
  modified :: "jstring list"
  removed :: "jstring list"

record head_commit_info =
  head_id :: jstring
  head_message :: jstring

record push_event =
  ref :: jstring
  repository :: repository_info
  commits :: "commit list"
  head_commit :: "head_commit_info option"
  sender_login :: jstring

text \<open>
  The rows the handler reads and writes through the database client: a repository with
  its optional configuration, and the translation tasks. Identifiers are opaque.
\<close>

record repo_config =
  autoTranslate :: bool
  includePaths :: "jstring list option"
  excludePaths :: "jstring list option"
  targetLanguages :: "jstring list option"

record repo_row =
  repo_key :: nat
  githubRepoId :: int
  userId :: nat
  config :: "repo_config option"

datatype task_type = FULL | INCREMENTAL

record translation_task =
  task_id :: nat
  task_userId :: nat
  task_repositoryId :: nat
  task_targetLanguages :: "jstring list"
  task_type :: task_type

record job =
  job_taskId :: nat
  job_userId :: nat
  job_repositoryId :: nat
  job_targetLanguages :: "jstring list"
  job_type :: task_type
  job_changedFiles :: "jstring list"

text \<open>
  The state the handler works on: the module-level map \<open>processedDeliveries\<close>
  (delivery identifier to expiry time in milliseconds), the two database tables, and the
  jobs handed to \<open>translationQueue.add\<close> in order.
\<close>

record server_state =
  processedDeliveries :: "jstring \<rightharpoonup> int"
  repositories :: "repo_row list"
  tasks :: "translation_task list"
  queue :: "job list"

text \<open>
  A request: the three headers the handler reads (\<open>None\<close> when \<open>headers.get\<close> gives
  \<open>null\<close>), the raw body, and the two readings of \<open>Date.now()\<close> that handling it
  makes: one in \<open>cleanupDeliveryCache\<close>, one when the delivery is recorded.
\<close>

record request =
  x_github_delivery :: "jstring option"
  x_hub_signature_256 :: "jstring option"
  x_github_event :: "jstring option"
  body :: jstring
  now_cleanup :: int
  now_mark :: int

text \<open>
  What the handler takes from its surroundings: the environment variable with the
  shared secret, the library function computing the HMAC-SHA256 of a payload under a
  key as a hexadecimal string, \<open>JSON.parse\<close> (\<open>None\<close>: the body is not JSON of the
  shape of a push event, and reading it throws), and the regular expression engine
  for pattern sources outside the interpreted fragment.
\<close>

record environment =
  GITHUB_WEBHOOK_SECRET :: "jstring option"
  hmac_sha256_hex :: "jstring \<Rightarrow> jstring \<Rightarrow> jstring"
  JSON_parse :: "jstring \<Rightarrow> push_event option"
  RegExp_test :: regexp_engine

text \<open>The responses: \<open>{message}\<close> with status 200, \<open>{error}\<close> with a status, and the
  success response with the task identifier and the files.\<close>

datatype response =
    Json_message string
  | Json_error nat string
  | Task_created nat "jstring list"

abbreviation (input) duplicate_response :: response where
  "duplicate_response \<equiv> Json_message ''Duplicate delivery ignored''"

subsection \<open>Delivery cache\<close>

definition DELIVERY_CACHE_TTL :: int where
  "DELIVERY_CACHE_TTL = 60 * 1000"

definition cleanupDeliveryCache :: "int \<Rightarrow> (jstring \<rightharpoonup> int) \<Rightarrow> (jstring \<rightharpoonup> int)" where
  "cleanupDeliveryCache now cache =
     (\<lambda>id. case cache id of
              None \<Rightarrow> None
            | Some expireAt \<Rightarrow> if now > expireAt then None else Some expireAt)"

subsection \<open>Signature verification (webhook.ts)\<close>

text \<open>
  \<open>timingSafeEqual\<close> throws when the two buffers differ in length (\<open>None\<close>). The
  digest is \<open>sha256=\<close> and hexadecimal digits, so comparing the UTF-8 buffers of header
  and digest is comparing the two strings.
\<close>

definition timingSafeEqual :: "jstring \<Rightarrow> jstring \<Rightarrow> bool option" where
  "timingSafeEqual a b = (if length a \<noteq> length b then None else Some (a = b))"

definition verifyWebhookSignature ::
  "(jstring \<Rightarrow> jstring \<Rightarrow> jstring) \<Rightarrow> jstring \<Rightarrow> jstring \<Rightarrow> jstring \<Rightarrow> bool" where
  "verifyWebhookSignature createHmac payload signature secret =
     (if signature = [] \<or> \<not> startsWith signature (ascii ''sha256='') then False
      else (let digest = ascii ''sha256='' @ createHmac secret payload
            in case timingSafeEqual signature digest of
                 None \<Rightarrow> False
               | Some b \<Rightarrow> b))"

subsection \<open>POST\<close>

text \<open>A JavaScript \<open>Set\<close> of strings, in insertion order.\<close>

definition set_add :: "jstring list \<Rightarrow> jstring \<Rightarrow> jstring list" where
  "set_add xs x = (if x \<in> set xs then xs else xs @ [x])"

text \<open>Step 10: the added and the modified files of every commit, in order.\<close>

definition changedFiles :: "commit list \<Rightarrow> jstring list" where
  "changedFiles cs =
     foldl (\<lambda>acc c. foldl set_add (foldl set_add acc (added c)) (modified c)) [] cs"

text \<open>
  Modelled from the spec: \<open>translationQueue.add\<close> (lib/queue/local-queue is not among
  the sources). \<open>add(job)\<close> enqueues and returns immediately; jobs are kept in
  submission order.
\<close>

definition translationQueue_add :: "job \<Rightarrow> server_state \<Rightarrow> server_state" where
  "translationQueue_add j s = s\<lparr>queue := queue s @ [j]\<rparr>"

text \<open>
  Steps 10 to 14, for an event that passed the checks and a repository row \<open>repo\<close>
  with configuration \<open>cfg\<close>. The task gets the next free identifier. A SyntaxError
  thrown by the path filter ends in the \<open>catch\<close> clause of the handler: status 500,
  nothing created.
\<close>

definition create_task ::
  "environment \<Rightarrow> push_event \<Rightarrow> repo_row \<Rightarrow> repo_config \<Rightarrow> server_state
     \<Rightarrow> response \<times> server_state" where
  "create_task env data repo cfg s =
     (case filterFilesToTranslate (RegExp_test env) (changedFiles (commits data))
             (includePaths cfg) (excludePaths cfg) of
        None \<Rightarrow> (Json_error 500 ''Internal server error'', s)
      | Some filesToTranslate \<Rightarrow>
          if filesToTranslate = [] then (Json_message ''No translatable files changed'', s)
          else (case targetLanguages cfg of
                  None \<Rightarrow> (Json_message ''No target languages configured'', s)
                | Some langs \<Rightarrow>
                    if langs = [] then (Json_message ''No target languages configured'', s)
                    else (let task = \<lparr>task_id = length (tasks s), task_userId = userId repo,
                                       task_repositoryId = repo_key repo,
                                       task_targetLanguages = langs, task_type = INCREMENTAL\<rparr>;
                              j = \<lparr>job_taskId = task_id task, job_userId = userId repo,
                                    job_repositoryId = repo_key repo,
                                    job_targetLanguages = langs, job_type = INCREMENTAL,
                                    job_changedFiles = filesToTranslate\<rparr>
                          in (Task_created (task_id task) filesToTranslate,
                              translationQueue_add j (s\<lparr>tasks := tasks s @ [task]\<rparr>)))))"

text \<open>
  Steps 3 to 9: event type, body, branch, self-commit marker, repository, configuration.
  \<open>findFirst\<close> is the first row with the repository's GitHub identifier; the database
  calls are taken to succeed. An exception ends in the \<open>catch\<close> clause: status 500.
\<close>

definition handle_event ::
  "environment \<Rightarrow> request \<Rightarrow> server_state \<Rightarrow> response \<times> server_state" where
  "handle_event env req s =
     (if x_github_event req \<noteq> Some (ascii ''push'') then (Json_message ''Event ignored'', s)
      else (case JSON_parse env (body req) of
              None \<Rightarrow> (Json_error 500 ''Internal server error'', s)
            | Some data \<Rightarrow>
                (let branchName = replace_first (ref data) (ascii ''refs/heads/'') []
                 in if branchName \<noteq> default_branch (repository data)
                    then (Json_message ''Non-default branch ignored'', s)
                    else if (case head_commit data of
                               None \<Rightarrow> False
                             | Some hc \<Rightarrow> startsWith (head_message hc) (ascii ''[GitHub Global]''))
                    then (Json_message ''Self-commit ignored'', s)
                    else (case find (\<lambda>r. githubRepoId r = repository_id (repository data))
                                 (repositories s) of
                            None \<Rightarrow> (Json_message ''Repository not imported'', s)
                          | Some repo \<Rightarrow>
                              (case config repo of
                                 None \<Rightarrow> (Json_message ''Repository not configured'', s)
                               | Some cfg \<Rightarrow>
                                   if \<not> autoTranslate cfg
                                   then (Json_message ''Auto-translate disabled'', s)
                                   else create_task env data repo cfg s)))))"

text \<open>Steps 1 and 2: the signature header, the secret, the verification.\<close>

definition check_signature ::
  "environment \<Rightarrow> request \<Rightarrow> server_state \<Rightarrow> response \<times> server_state" where
  "check_signature env req s =
     (if \<not> truthy (x_hub_signature_256 req) then (Json_error 401 ''Missing signature'', s)
      else if \<not> truthy (GITHUB_WEBHOOK_SECRET env)
        then (Json_error 500 ''Webhook not configured'', s)
      else if \<not> verifyWebhookSignature (hmac_sha256_hex env) (body req)
                  (the (x_hub_signature_256 req)) (the (GITHUB_WEBHOOK_SECRET env))
        then (Json_error 401 ''Invalid signature'', s)
      else handle_event env req s)"

text \<open>
  The handler. Step 0 runs before the first \<open>await\<close>: with a delivery identifier
  (a non-empty header), expired entries are removed, a recorded identifier ends the
  request, a new one is recorded with its expiry time.
\<close>

definition POST ::
  "environment \<Rightarrow> request \<Rightarrow> server_state \<Rightarrow> response \<times> server_state" where
  "POST env req s =
     (let deliveryId = x_github_delivery req
      in if truthy deliveryId
         then (let cleaned = cleanupDeliveryCache (now_cleanup req) (processedDeliveries s)
               in if cleaned (the deliveryId) \<noteq> None
                  then (Json_message ''Duplicate delivery ignored'',
                        s\<lparr>processedDeliveries := cleaned\<rparr>)
                  else check_signature env req
                         (s\<lparr>processedDeliveries :=
                              cleaned(the deliveryId \<mapsto> now_mark req + DELIVERY_CACHE_TTL)\<rparr>))
         else check_signature env req s)"

text \<open>Requests handled one after the other; the state after the last.\<close>

fun handle_all :: "environment \<Rightarrow> request list \<Rightarrow> server_state \<Rightarrow> server_state" where
  "handle_all env [] s = s"
| "handle_all env (r # rs) s = handle_all env rs (snd (POST env r s))"

subsection \<open>Concrete surroundings for the scenarios\<close>

text \<open>
  A stand-in for the HMAC function (the handler only compares the header with its
  output), a parser that knows one body, a stand-in for the regular expression engine
  (no call below has a pattern outside the interpreted fragment, so it is never
  consulted), and a database with one configured repository: auto-translate enabled,
  target languages \<open>en\<close> and \<open>ja\<close>, no include or exclude patterns.
\<close>

definition no_regexp :: regexp_engine where
  "no_regexp source path = None"

definition example_hmac :: "jstring \<Rightarrow> jstring \<Rightarrow> jstring" where
  "example_hmac secret payload = ascii ''5f2a''"

definition example_env :: "push_event \<Rightarrow> environment" where
  "example_env ev =
     \<lparr>GITHUB_WEBHOOK_SECRET = Some (ascii ''s3cret''),
      hmac_sha256_hex = example_hmac,
      JSON_parse = (\<lambda>payload. if payload = ascii ''{push}'' then Some ev else None),
      RegExp_test = no_regexp\<rparr>"

definition example_config :: repo_config where
  "example_config =
     \<lparr>autoTranslate = True, includePaths = None, excludePaths = None,
      targetLanguages = Some [ascii ''en'', ascii ''ja'']\<rparr>"

definition example_state :: server_state where
  "example_state =
     \<lparr>processedDeliveries = Map.empty,
      repositories = [\<lparr>repo_key = 1, githubRepoId = 42, userId = 7, config = Some example_config\<rparr>],
      tasks = [], queue = []\<rparr>"

definition signed_push :: "jstring \<Rightarrow> int \<Rightarrow> request" where
  "signed_push delivery t =
     \<lparr>x_github_delivery = Some delivery,
      x_hub_signature_256 = Some (ascii ''sha256=5f2a''),
      x_github_event = Some (ascii ''push''),
      body = ascii ''{push}'', now_cleanup = t, now_mark = t\<rparr>"

definition example_repository :: repository_info where
  "example_repository =
     \<lparr>repository_id = 42, full_name = ascii ''octo/docs'', default_branch = ascii ''main''\<rparr>"

text \<open>Scenario A: one commit on the default branch adds U+4ECB U+7ECD \<open>.md\<close> under
  \<open>docs/\<close> and \<open>node_modules/x.md\<close>.\<close>

definition scenario_A_event :: push_event where
  "scenario_A_event =
     \<lparr>ref = ascii ''refs/heads/main'', repository = example_repository,
      commits = [\<lparr>commit_id = ascii ''c1'', commit_message = ascii ''add docs'',
                  added = [ascii ''docs/'' @ [0x4ECB, 0x7ECD] @ ascii ''.md'', ascii ''node_modules/x.md''],
                  modified = [], removed = []\<rparr>],
      head_commit = Some \<lparr>head_id = ascii ''c1'', head_message = ascii ''add docs''\<rparr>,
      sender_login = ascii ''octocat''\<rparr>"

text \<open>A push of two commits: the first carries the marker of the system's own commits,
  the second, the head commit, does not.\<close>

definition marked_then_plain_event :: push_event where
  "marked_then_plain_event =
     \<lparr>ref = ascii ''refs/heads/main'', repository = example_repository,
      commits = [\<lparr>commit_id = ascii ''c1'', commit_message = ascii ''[GitHub Global] Add translations'',
                  added = [ascii ''notes/a.md''], modified = [], removed = []\<rparr>,
                 \<lparr>commit_id = ascii ''c2'', commit_message = ascii ''fix typo'',
                  added = [], modified = [ascii ''docs/guide.md''], removed = []\<rparr>],
      head_commit = Some \<lparr>head_id = ascii ''c2'', head_message = ascii ''fix typo''\<rparr>,
      sender_login = ascii ''octocat''\<rparr>"

text \<open>A push whose head commit carries the marker, with an eligible file in it.\<close>

definition self_commit_event :: push_event where
  "self_commit_event =
     \<lparr>ref = ascii ''refs/heads/main'', repository = example_repository,
      commits = [\<lparr>commit_id = ascii ''c1'', commit_message = ascii ''update guide'',
                  added = [], modified = [ascii ''docs/guide.md''], removed = []\<rparr>,
                 \<lparr>commit_id = ascii ''c2'', commit_message = ascii ''[GitHub Global] Add translations'',
                  added = [ascii ''docs/new.md''], modified = [], removed = []\<rparr>],
      head_commit = Some \<lparr>head_id = ascii ''c2'',
                            head_message = ascii ''[GitHub Global] Add translations''\<rparr>,
      sender_login = ascii ''octocat''\<rparr>"

text \<open>A request with no headers but the delivery identifier, and one with no headers at all.\<close>

definition unsigned_request :: "jstring \<Rightarrow> int \<Rightarrow> request" where
  "unsigned_request delivery t =
     \<lparr>x_github_delivery = Some delivery, x_hub_signature_256 = None,
      x_github_event = Some (ascii ''push''),
      body = ascii ''{push}'', now_cleanup = t, now_mark = t\<rparr>"

definition bare_request :: "int \<Rightarrow> request" where
  "bare_request t =
     \<lparr>x_github_delivery = None, x_hub_signature_256 = None, x_github_event = None,
      body = [], now_cleanup = t, now_mark = t\<rparr>"

section \<open>Properties of the path filter\<close>

lemma some_matchPath_Some:
  "some_matchPath rx f ps = Some b \<Longrightarrow> b = list_ex (\<lambda>p. matchPath rx f p = Some True) ps"
  by (induction ps) (auto split: option.splits bool.splits)

















section \<open>Properties of the filename transliteration\<close>

subsection \<open>split and join\<close>

lemma split_slash_nonempty: "split_slash s \<noteq> []"
  by (induction s) (auto split: list.splits)

lemma split_slash_no_slash: "p \<in> set (split_slash s) \<Longrightarrow> slash \<notin> set p"
  by (induction s arbitrary: p) (auto split: list.splits if_splits)

lemma split_slash_id: "slash \<notin> set f \<Longrightarrow> split_slash f = [f]"
  by (induction f) auto

lemma split_slash_append:
  "split_slash (x @ slash # y) = split_slash x @ split_slash y"
proof (induction x)
  case Nil
  show ?case by simp
next
  case (Cons c x)
  obtain p ps where "split_slash x = p # ps"
    using split_slash_nonempty [of x] by (cases "split_slash x") auto
  with Cons show ?case by simp
qed

lemma last_split_join:
  "slash \<notin> set f \<Longrightarrow> last (split_slash (join_slash (ds @ [f]))) = f"
proof (induction ds)
  case Nil
  then show ?case by (simp add: split_slash_id)
next
  case (Cons d ds)
  obtain e es where e: "ds @ [f] = e # es" by (cases "ds @ [f]") auto
  have "join_slash ((d # ds) @ [f]) = d @ slash # join_slash (ds @ [f])"
    using e by simp
  then show ?case using Cons split_slash_nonempty by (simp add: split_slash_append)
qed

lemma set_last_split: "set (last (split_slash s)) \<subseteq> set s"
proof (induction s)
  case Nil
  show ?case by simp
next
  case (Cons c s)
  obtain p ps where p: "split_slash s = p # ps"
    using split_slash_nonempty [of s] by (cases "split_slash s") auto
  with Cons show ?case using split_slash_nonempty [of s] by (auto split: if_splits)
qed

subsection \<open>lastIndexOf\<close>

lemma lastIndexOf_absent: "c \<notin> set s \<Longrightarrow> lastIndexOf s c = - 1"
  by (induction s) (auto simp: Let_def)

lemma lastIndexOf_append:
  "c \<notin> set b \<Longrightarrow> lastIndexOf (a @ c # b) c = int (length a)"
  by (induction a) (auto simp: Let_def lastIndexOf_absent)

lemma lastIndexOf_decomp:
  "0 \<le> lastIndexOf s c \<Longrightarrow>
   \<exists>a b. s = a @ c # b \<and> c \<notin> set b \<and> lastIndexOf s c = int (length a)"
proof (induction s)
  case Nil
  then show ?case by simp
next
  case (Cons x s)
  show ?case
  proof (cases "0 \<le> lastIndexOf s c")
    case True
    then obtain a b where "s = a @ c # b" "c \<notin> set b" "lastIndexOf s c = int (length a)"
      using Cons.IH by blast
    then have "x # s = (x # a) @ c # b \<and> c \<notin> set b \<and> lastIndexOf (x # s) c = int (length (x # a))"
      by (simp add: Let_def)
    then show ?thesis by blast
  next
    case False
    with Cons.prems have x: "x = c" by (auto simp: Let_def split: if_splits)
    have "c \<notin> set s"
    proof
      assume "c \<in> set s"
      then obtain a b where "s = a @ c # b" "c \<notin> set b" 
        by (meson split_list_last)
      then have "lastIndexOf s c = int (length a)" by (simp add: lastIndexOf_append)
      with False show False by simp
    qed
    with x False have "x # s = [] @ c # s \<and> c \<notin> set s \<and> lastIndexOf (x # s) c = int (length ([]::jstring))"
      by (simp add: Let_def)
    then show ?thesis by blast
  qed
qed

text \<open>The name part and the extension are pieces of the file name.\<close>

lemma set_nameWithoutExt: "set (nameWithoutExt f) \<subseteq> set f"
  by (auto simp: nameWithoutExt_def Let_def dest: in_set_takeD)

lemma set_extension: "set (extension f) \<subseteq> set f"
  by (auto simp: extension_def Let_def dest: in_set_dropD)

lemma extension_cases:
  "extension f = [] \<or> (\<exists>r. extension f = dot # r \<and> dot \<notin> set r)"
proof (cases "0 < lastIndexOf f dot")
  case False
  then show ?thesis by (simp add: extension_def)
next
  case True
  then obtain a b where "f = a @ dot # b" "dot \<notin> set b" "lastIndexOf f dot = int (length a)"
    using lastIndexOf_decomp [of f dot] by auto
  then show ?thesis using True by (simp add: extension_def)
qed

lemma nameWithoutExt_rebuilt:
  assumes "t \<noteq> []"
  shows "\<exists>k. nameWithoutExt (t @ extension f) = take k t"
proof -
  from extension_cases [of f] show ?thesis
  proof
    assume e: "extension f = []"
    have "nameWithoutExt t = t \<or> (\<exists>k. nameWithoutExt t = take k t)"
      by (auto simp: nameWithoutExt_def Let_def)
    then have "\<exists>k. nameWithoutExt t = take k t" by (metis take_all order_refl)
    with e show ?thesis by simp
  next
    assume "\<exists>r. extension f = dot # r \<and> dot \<notin> set r"
    then obtain r where r: "extension f = dot # r" "dot \<notin> set r" by blast
    then have "lastIndexOf (t @ extension f) dot = int (length t)"
      by (simp add: lastIndexOf_append)
    with assms r have "nameWithoutExt (t @ extension f) = take (length t) t"
      by (simp add: nameWithoutExt_def)
    then show ?thesis by blast
  qed
qed

subsection \<open>ASCII results\<close>

lemma containsNonAscii_iff: "containsNonAscii s \<longleftrightarrow> (\<exists>c\<in>set s. 0x7F < c)"
  by (simp add: containsNonAscii_def list_ex_iff)

lemma containsNonAscii_subset:
  "set s \<subseteq> set t \<Longrightarrow> \<not> containsNonAscii t \<Longrightarrow> \<not> containsNonAscii s"
  by (auto simp: containsNonAscii_iff)

lemma set_replace_non_ascii_runs:
  "set (replace_non_ascii_runs s) \<subseteq> {c \<in> set s. \<not> 0x7F < c} \<union> {hyphen}"
proof (induction s rule: replace_non_ascii_runs.induct)
  case 1
  show ?case by simp
next
  case (2 c cs)
  show ?case
  proof (cases "0x7F < c")
    case True
    with 2 have "set (replace_non_ascii_runs (dropWhile (\<lambda>x. 0x7F < x) cs))
       \<subseteq> {c \<in> set (dropWhile (\<lambda>x. 0x7F < x) cs). \<not> 0x7F < c} \<union> {hyphen}" by simp
    moreover have "set (dropWhile (\<lambda>x. 0x7F < x) cs) \<subseteq> set cs" by (rule set_dropWhileD [THEN subsetI])
    ultimately show ?thesis using True by auto
  next
    case False
    with 2 show ?thesis by auto
  qed
qed

lemma set_trim_hyphens: "set (trim_hyphens s) \<subseteq> set s"
  unfolding trim_hyphens_def
  by (metis set_dropWhileD set_rev subsetI)

lemma set_collapse_hyphens: "set (collapse_hyphens s) \<subseteq> set s"
proof (induction s rule: collapse_hyphens.induct)
  case 1
  show ?case by simp
next
  case (2 c cs)
  have "set (dropWhile (\<lambda>x. x = hyphen) cs) \<subseteq> set cs" by (rule set_dropWhileD [THEN subsetI])
  with 2 show ?case by (cases "c = hyphen") auto
qed

lemma set_hyphenate: "set (hyphenate s) \<subseteq> {c \<in> set s. \<not> 0x7F < c} \<union> {hyphen}"
  unfolding hyphenate_def
  using set_collapse_hyphens set_trim_hyphens set_replace_non_ascii_runs
  by (meson subset_trans)

lemma hyphenate_ascii: "\<not> containsNonAscii (hyphenate s)"
  using set_hyphenate [of s] by (auto simp: containsNonAscii_iff)

lemma hyphenate_no_slash: "slash \<notin> set s \<Longrightarrow> slash \<notin> set (hyphenate s)"
  using set_hyphenate [of s] by auto


subsection \<open>The table\<close>

lemma FILENAME_MAPPING_values:
  "list_all (\<lambda>(k, v). v \<noteq> [] \<and> \<not> containsNonAscii v \<and> slash \<notin> set v) FILENAME_MAPPING"
  by (simp add: FILENAME_MAPPING_def containsNonAscii_def ascii_def)

lemma map_of_FILENAME_MAPPING:
  assumes "map_of FILENAME_MAPPING k = Some v"
  shows "v \<noteq> []" "\<not> containsNonAscii v" "slash \<notin> set v"
proof -
  from assms have "(k, v) \<in> set FILENAME_MAPPING" by (rule map_of_SomeD)
  with FILENAME_MAPPING_values have "v \<noteq> [] \<and> \<not> containsNonAscii v \<and> slash \<notin> set v"
    by (auto simp: list_all_iff)
  then show "v \<noteq> []" "\<not> containsNonAscii v" "slash \<notin> set v" by simp_all
qed

lemma replace_first_nonempty:
  "includes_sub s k \<Longrightarrow> v \<noteq> [] \<Longrightarrow> replace_first s k v \<noteq> []"
  by (induction s) (auto split: if_splits)

lemma set_replace_first: "set (replace_first s k v) \<subseteq> set s \<union> set v"
  by (induction s) (auto split: if_splits dest: in_set_dropD)

lemma partial_match_Some:
  assumes "partial_match name = Some t"
  shows "t \<noteq> []" "set t \<subseteq> set name \<union> {c. c \<noteq> slash}"
proof -
  from assms obtain k v where f: "find (\<lambda>(chinese, english). includes_sub name chinese) FILENAME_MAPPING = Some (k, v)"
    and t: "t = replace_first name k v"
    by (auto simp: partial_match_def split: option.splits)
  from f have inc: "includes_sub name k" and mem: "(k, v) \<in> set FILENAME_MAPPING"
    by (auto simp: find_Some_iff in_set_conv_nth)
  from mem FILENAME_MAPPING_values have v: "v \<noteq> []" "slash \<notin> set v"
    by (auto simp: list_all_iff)
  show "t \<noteq> []" using t inc v by (simp add: replace_first_nonempty)
  show "set t \<subseteq> set name \<union> {c. c \<noteq> slash}"
    using set_replace_first [of name k v] t v by auto
qed

lemma translatedName_props:
  "translatedName name \<noteq> []"
  "\<not> containsNonAscii (translatedName name)"
  "slash \<notin> set name \<Longrightarrow> slash \<notin> set (translatedName name)"
proof -
  let ?look = "map_of FILENAME_MAPPING name"
  let ?found = "if truthy ?look then ?look else partial_match name"
  let ?h = "hyphenate name"
  let ?fb = "if ?h = [] \<or> ?h = [hyphen] then ascii ''document'' else ?h"
  have fb: "?fb \<noteq> []" "\<not> containsNonAscii ?fb" "slash \<notin> set name \<Longrightarrow> slash \<notin> set ?fb"
    using hyphenate_ascii [of name] hyphenate_no_slash [of name]
    by (auto simp: ascii_def containsNonAscii_def)
  have tn: "translatedName name = (if \<not> truthy ?found \<or> containsNonAscii (the ?found) then ?fb else the ?found)"
    by (simp add: translatedName_def Let_def)
  have found: "the ?found \<noteq> [] \<and> (slash \<notin> set name \<longrightarrow> slash \<notin> set (the ?found))" if "truthy ?found"
  proof (cases "truthy ?look")
    case True
    then obtain v where "?look = Some v" by (auto simp: truthy_def split: option.splits)
    then show ?thesis using True map_of_FILENAME_MAPPING [of name v] by simp
  next
    case False
    with that obtain t where "partial_match name = Some t" by (auto simp: truthy_def split: option.splits)
    then show ?thesis using False partial_match_Some [of name t] by auto
  qed
  show "translatedName name \<noteq> []" using tn fb(1) found by (cases "\<not> truthy ?found \<or> containsNonAscii (the ?found)") auto
  show "\<not> containsNonAscii (translatedName name)" using tn fb(2) by (cases "\<not> truthy ?found \<or> containsNonAscii (the ?found)") auto
  show "slash \<notin> set (translatedName name)" if "slash \<notin> set name"
    using tn fb(3) found that by (cases "\<not> truthy ?found \<or> containsNonAscii (the ?found)") auto
qed

subsection \<open>The two branches of translateFilename\<close>

lemma translateFilename_ascii_name:
  "\<not> containsNonAscii (nameWithoutExt (last (split_slash p))) \<Longrightarrow> translateFilename p = p"
  by (simp add: translateFilename_def Let_def)

lemma translateFilename_result_name:
  assumes "containsNonAscii (nameWithoutExt (last (split_slash p)))"
  shows "\<not> containsNonAscii (nameWithoutExt (last (split_slash (translateFilename p))))"
proof -
  let ?f = "last (split_slash p)"
  let ?t = "translatedName (nameWithoutExt ?f)"
  have fs: "slash \<notin> set ?f"
    using split_slash_no_slash [of ?f p] split_slash_nonempty [of p] by simp
  then have "slash \<notin> set (nameWithoutExt ?f)" "slash \<notin> set (extension ?f)"
    using set_nameWithoutExt [of ?f] set_extension [of ?f] by auto
  then have ns: "slash \<notin> set (?t @ extension ?f)"
    using translatedName_props(3) [of "nameWithoutExt ?f"] by simp
  have "translateFilename p = join_slash (map translate_directory (butlast (split_slash p)) @ [?t @ extension ?f])"
    using assms by (simp add: translateFilename_def Let_def)
  then have "last (split_slash (translateFilename p)) = ?t @ extension ?f"
    using last_split_join [OF ns] by simp
  moreover obtain k where "nameWithoutExt (?t @ extension ?f) = take k ?t"
    using nameWithoutExt_rebuilt [OF translatedName_props(1)] by blast
  moreover have "\<not> containsNonAscii (take k ?t)"
    using translatedName_props(2) [of "nameWithoutExt ?f"]
    by (auto simp: containsNonAscii_iff dest: in_set_takeD)
  ultimately show ?thesis by simp
qed

section \<open>Properties of the webhook handler\<close>

subsection \<open>The delivery cache\<close>

text \<open>Steps 1 to 14 leave the cache alone and never give the duplicate response.\<close>

lemma create_task_cache:
  "processedDeliveries (snd (create_task env data repo cfg s)) = processedDeliveries s
   \<and> fst (create_task env data repo cfg s) \<noteq> duplicate_response"
  by (auto simp: create_task_def translationQueue_add_def Let_def split: option.splits)

lemma handle_event_cache:
  "processedDeliveries (snd (handle_event env req s)) = processedDeliveries s
   \<and> fst (handle_event env req s) \<noteq> duplicate_response"
  unfolding handle_event_def Let_def
  using create_task_cache by (auto split: option.splits)

lemma check_signature_cache:
  "processedDeliveries (snd (check_signature env req s)) = processedDeliveries s
   \<and> fst (check_signature env req s) \<noteq> duplicate_response"
  unfolding check_signature_def
  using handle_event_cache by auto

text \<open>
  What step 0 does with a request that carries an identifier: the answer is the
  duplicate response exactly when the identifier is in the cache after the eviction,
  and the cache afterwards is the evicted one, with the identifier added if it was new.
\<close>

lemma POST_cache:
  assumes "x_github_delivery req = Some d" "d \<noteq> []"
  shows "(fst (POST env req s) = duplicate_response
            \<longleftrightarrow> cleanupDeliveryCache (now_cleanup req) (processedDeliveries s) d \<noteq> None)"
    and "processedDeliveries (snd (POST env req s)) =
           (if cleanupDeliveryCache (now_cleanup req) (processedDeliveries s) d \<noteq> None
            then cleanupDeliveryCache (now_cleanup req) (processedDeliveries s)
            else (cleanupDeliveryCache (now_cleanup req) (processedDeliveries s))
                   (d \<mapsto> now_mark req + DELIVERY_CACHE_TTL))"
  using assms check_signature_cache
  by (auto simp: POST_def truthy_def Let_def)

text \<open>A request answered as a duplicate changes nothing but the cache.\<close>

lemma POST_duplicate:
  assumes "x_github_delivery req = Some d" "d \<noteq> []"
    and "processedDeliveries s d = Some e" "now_cleanup req \<le> e"
  shows "POST env req s =
           (duplicate_response,
            s\<lparr>processedDeliveries := cleanupDeliveryCache (now_cleanup req) (processedDeliveries s)\<rparr>)"
  using assms by (simp add: POST_def truthy_def cleanupDeliveryCache_def)

text \<open>An unexpired entry outlives every request: entries are removed only when
  expired and written only for identifiers that are not recorded.\<close>

lemma POST_keeps_entry:
  assumes "processedDeliveries s d = Some e" "now_cleanup req \<le> e"
  shows "processedDeliveries (snd (POST env req s)) d = Some e"
proof (cases "truthy (x_github_delivery req)")
  case False
  then show ?thesis using assms check_signature_cache by (simp add: POST_def)
next
  case True
  then obtain k where k: "x_github_delivery req = Some k" "k \<noteq> []"
    by (auto simp: truthy_def split: option.splits)
  let ?cleaned = "cleanupDeliveryCache (now_cleanup req) (processedDeliveries s)"
  have c: "?cleaned d = Some e" using assms by (simp add: cleanupDeliveryCache_def)
  show ?thesis
  proof (cases "?cleaned k \<noteq> None")
    case True
    with POST_cache(2) [OF k, of env s] c show ?thesis by simp
  next
    case False
    with c have "k \<noteq> d" by auto
    with POST_cache(2) [OF k, of env s] False c show ?thesis by simp
  qed
qed

lemma handle_all_keeps_entry:
  assumes "processedDeliveries s d = Some e" "\<forall>r\<in>set rs. now_cleanup r \<le> e"
  shows "processedDeliveries (handle_all env rs s) d = Some e"
  using assms
proof (induction rs arbitrary: s)
  case Nil
  then show ?case by simp
next
  case (Cons r rs)
  from Cons.prems have "processedDeliveries (snd (POST env r s)) d = Some e"
    by (simp add: POST_keeps_entry)
  with Cons.IH Cons.prems(2) show ?case by simp
qed

subsection \<open>Signature check and self-commit check\<close>

lemma verifyWebhookSignature_iff:
  "verifyWebhookSignature H payload sg secret \<longleftrightarrow> sg = ascii ''sha256='' @ H secret payload"
  by (auto simp: verifyWebhookSignature_def timingSafeEqual_def startsWith_def ascii_def Let_def)

lemma check_signature_invalid:
  assumes "GITHUB_WEBHOOK_SECRET env = Some secret" "secret \<noteq> []"
    and "x_hub_signature_256 req = None
         \<or> \<not> startsWith (the (x_hub_signature_256 req)) (ascii ''sha256='')
         \<or> the (x_hub_signature_256 req) \<noteq> ascii ''sha256='' @ hmac_sha256_hex env secret (body req)"
  shows "check_signature env req s = (Json_error 401 ''Missing signature'', s)
         \<or> check_signature env req s = (Json_error 401 ''Invalid signature'', s)"
proof (cases "truthy (x_hub_signature_256 req)")
  case False
  then show ?thesis by (simp add: check_signature_def)
next
  case True
  then obtain sg where sg: "x_hub_signature_256 req = Some sg"
    by (auto simp: truthy_def split: option.splits)
  with assms(3) have "sg \<noteq> ascii ''sha256='' @ hmac_sha256_hex env secret (body req)"
    by (auto simp: startsWith_def)
  then have "\<not> verifyWebhookSignature (hmac_sha256_hex env) (body req) sg secret"
    by (simp add: verifyWebhookSignature_iff)
  with True sg assms(1,2) show ?thesis by (simp add: check_signature_def truthy_def)
qed

lemma handle_event_self_commit:
  assumes "JSON_parse env (body req) = Some data" "head_commit data = Some hc"
    and "startsWith (head_message hc) (ascii ''[GitHub Global]'')"
  shows "\<exists>resp. handle_event env req s = (resp, s) \<and> (\<forall>n fs. resp \<noteq> Task_created n fs)"
  using assms by (simp add: handle_event_def Let_def)

lemma check_signature_self_commit:
  assumes "JSON_parse env (body req) = Some data" "head_commit data = Some hc"
    and "startsWith (head_message hc) (ascii ''[GitHub Global]'')"
  shows "\<exists>resp. check_signature env req s = (resp, s) \<and> (\<forall>n fs. resp \<noteq> Task_created n fs)"
  using handle_event_self_commit [OF assms, of s] by (simp add: check_signature_def)

text \<open>Unfolding everything, for concrete requests.\<close>

lemmas handler_defs =
  POST_def check_signature_def handle_event_def create_task_def translationQueue_add_def
  verifyWebhookSignature_def timingSafeEqual_def cleanupDeliveryCache_def DELIVERY_CACHE_TTL_def
  changedFiles_def set_add_def truthy_def
  filterFilesToTranslate_def keep_file_def endsWith_def startsWith_def ascii_def
  example_env_def example_hmac_def example_state_def example_config_def example_repository_def
  signed_push_def

subsection \<open>Claim C1: what matchPath makes of a double star\<close>

text \<open>
  C1 states that \<open>matchPath\<close> translates \<open>**\<close> to \<open>.*\<close> (matching across path
  separators), so that with \<open>includePaths = ["docs/**"]\<close> the list
  \<open>["guide.md", "docs/setup.md"]\<close> filters to \<open>["docs/setup.md"]\<close>.
  The source runs the three replacements one after the other: the star of the \<open>.*\<close>
  that the first one wrote is rewritten by the second, and its dot is escaped by the
  third. The pattern \<open>docs/**\<close> becomes the regular expression source
  \<open>docs/\.[^/]*\<close>, which does not match \<open>docs/setup.md\<close>, and the filter
  returns the empty list. In the glob syntax of the specification the pattern matches
  the path.
\<close>

theorem matchPath_double_star:
  "regexPattern (ascii ''docs/**'') = ascii ''docs/'' @ [backslash] @ ascii ''.[^/]*''
   \<and> matchPath rx (ascii ''docs/setup.md'') (ascii ''docs/**'') = Some False
   \<and> filterFilesToTranslate rx [ascii ''guide.md'', ascii ''docs/setup.md'']
         (Some [ascii ''docs/**'']) None = Some []
   \<and> glob_matches (ascii ''docs/setup.md'') (ascii ''docs/**'')"
  by (simp add: filterFilesToTranslate_def keep_file_def endsWith_def matchPath_def
      regexPattern_def replace_char_def ascii_def startsWith_def is_syntax_char_def
      glob_matches_def)

subsection \<open>Claim C8: the filter computes the specified predicate\<close>




subsection \<open>Claim C9: idempotence, and identity on ASCII paths\<close>

text \<open>
  C9: for every path \<open>p\<close>, \<open>translateFilename (translateFilename p) = translateFilename p\<close>:
  a first application leaves a final segment whose name part (before the extension) is
  ASCII, and on such a path the function returns its argument. On a path with no
  non-ASCII code unit at all, \<open>translateFilename\<close> is the identity.
\<close>

theorem translateFilename_idempotent:
  "translateFilename (translateFilename p) = translateFilename p
   \<and> (\<not> containsNonAscii p \<longrightarrow> translateFilename p = p)"
proof
  show "translateFilename (translateFilename p) = translateFilename p"
  proof (cases "containsNonAscii (nameWithoutExt (last (split_slash p)))")
    case True
    then show ?thesis
      by (intro translateFilename_ascii_name translateFilename_result_name)
  next
    case False
    then show ?thesis by (simp add: translateFilename_ascii_name)
  qed
  show "\<not> containsNonAscii p \<longrightarrow> translateFilename p = p"
  proof
    assume a: "\<not> containsNonAscii p"
    have "set (nameWithoutExt (last (split_slash p))) \<subseteq> set p"
      using set_nameWithoutExt set_last_split by (meson subset_trans)
    with a have "\<not> containsNonAscii (nameWithoutExt (last (split_slash p)))"
      by (rule containsNonAscii_subset [rotated])
    then show "translateFilename p = p" by (rule translateFilename_ascii_name)
  qed
qed

text \<open>The theorem at the ASCII path \<open>docs/readme.md\<close>.\<close>

theorem translateFilename_idempotent_witness:
  "\<not> containsNonAscii (ascii ''docs/readme.md'')
   \<and> translateFilename (ascii ''docs/readme.md'') = ascii ''docs/readme.md''
   \<and> translateFilename (translateFilename (ascii ''docs/readme.md'')) = ascii ''docs/readme.md''"
proof -
  have a: "\<not> containsNonAscii (ascii ''docs/readme.md'')"
    by (simp add: containsNonAscii_def ascii_def)
  with translateFilename_idempotent [of "ascii ''docs/readme.md''"] show ?thesis by simp
qed

subsection \<open>Claim C4: directory names when the file name is ASCII\<close>

text \<open>
  C4 states that every directory segment with non-ASCII characters is mapped to an
  ASCII equivalent, also when the file name itself is ASCII. The source returns
  \<open>originalPath\<close> as soon as the name part of the file name is ASCII, before the
  directories are looked at: the path U+6587 U+6863 \<open>/readme.md\<close> comes back unchanged,
  its directory still non-ASCII. With a non-ASCII file name (U+4ECB U+7ECD \<open>.md\<close>) in the
  same directory, the directory is translated to \<open>Documentation\<close>, and the extension
  is kept.
\<close>

theorem translateFilename_ascii_file_keeps_directory:
  "translateFilename ([0x6587, 0x6863] @ ascii ''/readme.md'')
     = [0x6587, 0x6863] @ ascii ''/readme.md''
   \<and> containsNonAscii (hd (split_slash (translateFilename ([0x6587, 0x6863] @ ascii ''/readme.md''))))
   \<and> translateFilename ([0x6587, 0x6863] @ ascii ''/'' @ [0x4ECB, 0x7ECD] @ ascii ''.md'')
     = ascii ''Documentation/Introduction.md''"
  by (simp add: translateFilename_def nameWithoutExt_def extension_def containsNonAscii_def
      translatedName_def translate_directory_def truthy_def FILENAME_MAPPING_def ascii_def)

subsection \<open>Claim C3: the target path for the base language\<close>

text \<open>
  C3, as amended: for every source path, when the target language equals the base
  language, \<open>getTranslatedPath\<close> returns the source path, not transliterated, under the
  per-language output prefix: \<open>translations/<targetLang>/<sourcePath>\<close>.
\<close>

theorem getTranslatedPath_base_language:
  "getTranslatedPath sourcePath lang lang
     = ascii ''translations/'' @ lang @ ascii ''/'' @ sourcePath"
  by (simp add: getTranslatedPath_def)

theorem getTranslatedPath_base_language_witness:
  "getTranslatedPath (ascii ''docs/'' @ [0x4ECB, 0x7ECD] @ ascii ''.md'') (ascii ''zh-CN'') (ascii ''zh-CN'')
     = ascii ''translations/zh-CN/docs/'' @ [0x4ECB, 0x7ECD] @ ascii ''.md''"
  using getTranslatedPath_base_language
    [of "ascii ''docs/'' @ [0x4ECB, 0x7ECD] @ ascii ''.md''" "ascii ''zh-CN''"]
  by (simp add: ascii_def)

text \<open>
  C3 as stated says the result is the source path itself, not joined under the prefix.
  For the source \<open>docs/a.md\<close> and base language \<open>en\<close> the result is
  \<open>translations/en/docs/a.md\<close>.
\<close>

theorem getTranslatedPath_base_language_counterexample:
  "getTranslatedPath (ascii ''docs/a.md'') (ascii ''en'') (ascii ''en'')
     = ascii ''translations/en/docs/a.md''
   \<and> getTranslatedPath (ascii ''docs/a.md'') (ascii ''en'') (ascii ''en'') \<noteq> ascii ''docs/a.md''"
  by (simp add: getTranslatedPath_def ascii_def)

subsection \<open>Claim C6: one delivery identifier, one processing\<close>

text \<open>
  C6: let a request \<open>r1\<close> carry the delivery identifier \<open>d\<close> (a non-empty header value)
  that is not recorded, or recorded and expired, when \<open>r1\<close> arrives. Then \<open>r1\<close>
  proceeds to the signature check with \<open>d\<close> recorded and is not answered as a
  duplicate, and every later request \<open>r2\<close> with the same identifier that arrives within
  the TTL (its cleanup time is at most 60000 ms after \<open>r1\<close> was recorded) gets the
  response \<open>Duplicate delivery ignored\<close> and leaves everything but the cache as it is,
  tasks and queue included, whatever requests \<open>rs\<close> were handled in between.
  Every call with an identifier evicts the expired entries first and evaluates the
  identifier on the evicted cache: the answer is the duplicate response exactly when
  the identifier is recorded and unexpired, and after the call every other entry is
  what the eviction left of it (after a duplicate call the cache is the evicted cache).
\<close>

theorem delivery_dedup_within_ttl:
  assumes "x_github_delivery r1 = Some d" "d \<noteq> []" "x_github_delivery r2 = Some d"
    and "cleanupDeliveryCache (now_cleanup r1) (processedDeliveries s0) d = None"
    and "POST env r1 s0 = (resp1, s1)"
    and "handle_all env rs s1 = s2"
    and "\<forall>r\<in>set rs. now_cleanup r \<le> now_mark r1 + DELIVERY_CACHE_TTL"
    and "now_cleanup r2 \<le> now_mark r1 + DELIVERY_CACHE_TTL"
  shows "POST env r1 s0 =
           check_signature env r1
             (s0\<lparr>processedDeliveries :=
                  (cleanupDeliveryCache (now_cleanup r1) (processedDeliveries s0))
                    (d \<mapsto> now_mark r1 + DELIVERY_CACHE_TTL)\<rparr>)
         \<and> resp1 \<noteq> duplicate_response
         \<and> POST env r2 s2 =
             (duplicate_response,
              s2\<lparr>processedDeliveries :=
                   cleanupDeliveryCache (now_cleanup r2) (processedDeliveries s2)\<rparr>)
         \<and> tasks (snd (POST env r2 s2)) = tasks s2 \<and> queue (snd (POST env r2 s2)) = queue s2
         \<and> (\<forall>r s k. x_github_delivery r = Some k \<and> k \<noteq> [] \<longrightarrow>
               (fst (POST env r s) = duplicate_response
                  \<longleftrightarrow> cleanupDeliveryCache (now_cleanup r) (processedDeliveries s) k \<noteq> None)
               \<and> (\<forall>j. j \<noteq> k \<longrightarrow>
                     processedDeliveries (snd (POST env r s)) j
                       = cleanupDeliveryCache (now_cleanup r) (processedDeliveries s) j)
               \<and> (fst (POST env r s) = duplicate_response \<longrightarrow>
                     processedDeliveries (snd (POST env r s))
                       = cleanupDeliveryCache (now_cleanup r) (processedDeliveries s)))"
proof (intro conjI)
  show "POST env r1 s0 =
           check_signature env r1
             (s0\<lparr>processedDeliveries :=
                  (cleanupDeliveryCache (now_cleanup r1) (processedDeliveries s0))
                    (d \<mapsto> now_mark r1 + DELIVERY_CACHE_TTL)\<rparr>)"
    using assms(1,2,4) by (simp add: POST_def truthy_def Let_def)
  show "resp1 \<noteq> duplicate_response"
    using POST_cache(1) [OF assms(1,2), of env s0] assms(4,5) by simp
  have "processedDeliveries s1 d = Some (now_mark r1 + DELIVERY_CACHE_TTL)"
    using POST_cache(2) [OF assms(1,2), of env s0] assms(4,5) by simp
  then have "processedDeliveries s2 d = Some (now_mark r1 + DELIVERY_CACHE_TTL)"
    using handle_all_keeps_entry [of s1 d _ rs env] assms(6,7) by simp
  from POST_duplicate [OF assms(3,2) this assms(8)]
  show dup: "POST env r2 s2 =
             (duplicate_response,
              s2\<lparr>processedDeliveries :=
                   cleanupDeliveryCache (now_cleanup r2) (processedDeliveries s2)\<rparr>)" .
  show "tasks (snd (POST env r2 s2)) = tasks s2" using dup by simp
  show "queue (snd (POST env r2 s2)) = queue s2" using dup by simp
  show "\<forall>r s k. x_github_delivery r = Some k \<and> k \<noteq> [] \<longrightarrow>
               (fst (POST env r s) = duplicate_response
                  \<longleftrightarrow> cleanupDeliveryCache (now_cleanup r) (processedDeliveries s) k \<noteq> None)
               \<and> (\<forall>j. j \<noteq> k \<longrightarrow>
                     processedDeliveries (snd (POST env r s)) j
                       = cleanupDeliveryCache (now_cleanup r) (processedDeliveries s) j)
               \<and> (fst (POST env r s) = duplicate_response \<longrightarrow>
                     processedDeliveries (snd (POST env r s))
                       = cleanupDeliveryCache (now_cleanup r) (processedDeliveries s))"
  proof (intro allI impI)
    fix r :: request and s :: server_state and k :: jstring
    assume "x_github_delivery r = Some k \<and> k \<noteq> []"
    then have k: "x_github_delivery r = Some k" "k \<noteq> []" by simp_all
    from POST_cache [OF k, of env s]
    show "(fst (POST env r s) = duplicate_response
                  \<longleftrightarrow> cleanupDeliveryCache (now_cleanup r) (processedDeliveries s) k \<noteq> None)
               \<and> (\<forall>j. j \<noteq> k \<longrightarrow>
                     processedDeliveries (snd (POST env r s)) j
                       = cleanupDeliveryCache (now_cleanup r) (processedDeliveries s) j)
               \<and> (fst (POST env r s) = duplicate_response \<longrightarrow>
                     processedDeliveries (snd (POST env r s))
                       = cleanupDeliveryCache (now_cleanup r) (processedDeliveries s))"
      by auto
  qed
qed

text \<open>
  The theorem on a run: a signed push with identifier \<open>d-1\<close> at time 1000 creates a
  task; a request without headers follows; the same push at time 61000, the last
  millisecond of the window, is a duplicate. An entry of another identifier that
  expired at time 500 is gone after the first call.
\<close>

theorem delivery_dedup_within_ttl_witness:
  "\<exists>s1 s3. POST (example_env scenario_A_event) (signed_push (ascii ''d-1'') 1000)
             (example_state\<lparr>processedDeliveries := [ascii ''d-0'' \<mapsto> 500]\<rparr>)
             = (Task_created 0 [ascii ''docs/'' @ [0x4ECB, 0x7ECD] @ ascii ''.md'',
                                 ascii ''node_modules/x.md''], s1)
         \<and> processedDeliveries s1 (ascii ''d-0'') = None
         \<and> handle_all (example_env scenario_A_event) [bare_request 2000] s1 = s1
         \<and> POST (example_env scenario_A_event) (signed_push (ascii ''d-1'') 61000) s1
             = (duplicate_response, s3)
         \<and> tasks s3 = tasks s1 \<and> queue s3 = queue s1"
proof -
  let ?E = "example_env scenario_A_event"
  let ?r1 = "signed_push (ascii ''d-1'') 1000"
  let ?r2 = "signed_push (ascii ''d-1'') 61000"
  let ?s0 = "example_state\<lparr>processedDeliveries := [ascii ''d-0'' \<mapsto> 500]\<rparr>"
  obtain s1 where p: "POST ?E ?r1 ?s0
      = (Task_created 0 [ascii ''docs/'' @ [0x4ECB, 0x7ECD] @ ascii ''.md'',
                          ascii ''node_modules/x.md''], s1)"
    by (simp add: handler_defs scenario_A_event_def Let_def)
  have h: "handle_all ?E [bare_request 2000] s1 = s1"
    by (simp add: POST_def check_signature_def truthy_def bare_request_def)
  have d: "x_github_delivery ?r1 = Some (ascii ''d-1'')" "ascii ''d-1'' \<noteq> []"
      "x_github_delivery ?r2 = Some (ascii ''d-1'')"
    by (simp_all add: signed_push_def ascii_def)
  have f: "cleanupDeliveryCache (now_cleanup ?r1) (processedDeliveries ?s0) (ascii ''d-1'') = None"
    by (simp add: cleanupDeliveryCache_def example_state_def ascii_def)
  have w: "\<forall>r\<in>set [bare_request 2000]. now_cleanup r \<le> now_mark ?r1 + DELIVERY_CACHE_TTL"
    "now_cleanup ?r2 \<le> now_mark ?r1 + DELIVERY_CACHE_TTL"
    by (simp_all add: bare_request_def signed_push_def DELIVERY_CACHE_TTL_def)
  have o: "ascii ''d-0'' \<noteq> ascii ''d-1''" by (simp add: ascii_def)
  have c: "cleanupDeliveryCache (now_cleanup ?r1) (processedDeliveries ?s0) (ascii ''d-0'') = None"
    by (simp add: cleanupDeliveryCache_def example_state_def signed_push_def)
  note t = delivery_dedup_within_ttl [OF d f p h w]
  from t have e: "processedDeliveries (snd (POST ?E ?r1 ?s0)) (ascii ''d-0'')
      = cleanupDeliveryCache (now_cleanup ?r1) (processedDeliveries ?s0) (ascii ''d-0'')"
    using d(1,2) o by blast
  from t have "POST ?E ?r2 s1 = (duplicate_response,
      s1\<lparr>processedDeliveries := cleanupDeliveryCache (now_cleanup ?r2) (processedDeliveries s1)\<rparr>)"
    by blast
  with p h e c show ?thesis by simp
qed

subsection \<open>Claim C10: the identifier is recorded before the signature is checked\<close>

text \<open>
  C10: let a request \<open>r1\<close> with delivery identifier \<open>d\<close> (non-empty) be rejected
  with status 401, for a missing or an invalid signature. Then \<open>d\<close> is recorded
  with the expiry time of \<open>r1\<close>, and every request \<open>r2\<close> with the same identifier that
  arrives within the TTL is answered \<open>Duplicate delivery ignored\<close> and creates no
  task, validly signed or not, whatever requests were handled in between.
\<close>

theorem rejected_delivery_blocks_retry:
  assumes "x_github_delivery r1 = Some d" "d \<noteq> []" "x_github_delivery r2 = Some d"
    and "POST env r1 s0 = (Json_error 401 msg, s1)"
    and "handle_all env rs s1 = s2"
    and "\<forall>r\<in>set rs. now_cleanup r \<le> now_mark r1 + DELIVERY_CACHE_TTL"
    and "now_cleanup r2 \<le> now_mark r1 + DELIVERY_CACHE_TTL"
  shows "processedDeliveries s1 d = Some (now_mark r1 + DELIVERY_CACHE_TTL)
         \<and> (\<exists>s3. POST env r2 s2 = (duplicate_response, s3)
                \<and> tasks s3 = tasks s2 \<and> queue s3 = queue s2)"
proof
  have "\<not> cleanupDeliveryCache (now_cleanup r1) (processedDeliveries s0) d \<noteq> None"
    using POST_cache(1) [OF assms(1,2), of env s0] assms(4) by simp
  then show m: "processedDeliveries s1 d = Some (now_mark r1 + DELIVERY_CACHE_TTL)"
    using POST_cache(2) [OF assms(1,2), of env s0] assms(4) by simp
  then have "processedDeliveries s2 d = Some (now_mark r1 + DELIVERY_CACHE_TTL)"
    using handle_all_keeps_entry [of s1 d _ rs env] assms(5,6) by simp
  from POST_duplicate [OF assms(3,2) this assms(7)]
  show "\<exists>s3. POST env r2 s2 = (duplicate_response, s3)
                \<and> tasks s3 = tasks s2 \<and> queue s3 = queue s2"
    by simp
qed

text \<open>
  The theorem on a run: an unsigned request with identifier \<open>d-1\<close> is rejected with
  401; the validly signed push with the same identifier four seconds later is
  answered as a duplicate. Handled first, that push would have created a task.
\<close>

theorem rejected_delivery_blocks_retry_witness:
  "\<exists>s1 s3. POST (example_env scenario_A_event) (unsigned_request (ascii ''d-1'') 1000) example_state
             = (Json_error 401 ''Missing signature'', s1)
         \<and> POST (example_env scenario_A_event) (signed_push (ascii ''d-1'') 5000) s1
             = (duplicate_response, s3)
         \<and> tasks s3 = tasks s1 \<and> queue s3 = queue s1
         \<and> fst (POST (example_env scenario_A_event) (signed_push (ascii ''d-1'') 5000) example_state)
             = Task_created 0 [ascii ''docs/'' @ [0x4ECB, 0x7ECD] @ ascii ''.md'',
                               ascii ''node_modules/x.md'']"
proof -
  let ?E = "example_env scenario_A_event"
  let ?r1 = "unsigned_request (ascii ''d-1'') 1000"
  let ?r2 = "signed_push (ascii ''d-1'') 5000"
  obtain s1 where p: "POST ?E ?r1 example_state = (Json_error 401 ''Missing signature'', s1)"
    by (simp add: handler_defs unsigned_request_def Let_def)
  have h: "handle_all ?E [] s1 = s1" by simp
  have d: "x_github_delivery ?r1 = Some (ascii ''d-1'')" "ascii ''d-1'' \<noteq> []"
      "x_github_delivery ?r2 = Some (ascii ''d-1'')"
    by (simp_all add: signed_push_def unsigned_request_def ascii_def)
  have w: "\<forall>r\<in>set []. now_cleanup r \<le> now_mark ?r1 + DELIVERY_CACHE_TTL"
    "now_cleanup ?r2 \<le> now_mark ?r1 + DELIVERY_CACHE_TTL"
    by (simp_all add: unsigned_request_def signed_push_def DELIVERY_CACHE_TTL_def)
  have e: "fst (POST ?E ?r2 example_state)
      = Task_created 0 [ascii ''docs/'' @ [0x4ECB, 0x7ECD] @ ascii ''.md'',
                        ascii ''node_modules/x.md'']"
    by (simp add: handler_defs scenario_A_event_def Let_def)
  from rejected_delivery_blocks_retry [OF d p h w] p e show ?thesis by blast
qed

subsection \<open>Claim C7: requests without a valid signature\<close>

text \<open>
  C7, as amended: let the secret be configured, and let the signature header be
  missing, or not start with \<open>sha256=\<close>, or differ from \<open>sha256=\<close> followed by the
  HMAC-SHA256 hex digest of the raw body under the secret. Then the request creates no
  task and enqueues no job; it is answered with status 401, unless its delivery
  identifier is recorded and unexpired, in which case it is answered
  \<open>Duplicate delivery ignored\<close>: the duplicate check runs before the signature check.
\<close>

theorem invalid_signature_rejected:
  assumes "GITHUB_WEBHOOK_SECRET env = Some secret" "secret \<noteq> []"
    and "x_hub_signature_256 req = None
         \<or> \<not> startsWith (the (x_hub_signature_256 req)) (ascii ''sha256='')
         \<or> the (x_hub_signature_256 req) \<noteq> ascii ''sha256='' @ hmac_sha256_hex env secret (body req)"
  shows "\<exists>resp s'. POST env req s = (resp, s')
           \<and> tasks s' = tasks s \<and> queue s' = queue s
           \<and> (if truthy (x_github_delivery req)
                  \<and> cleanupDeliveryCache (now_cleanup req) (processedDeliveries s)
                        (the (x_github_delivery req)) \<noteq> None
               then resp = duplicate_response
               else resp = Json_error 401 ''Missing signature''
                    \<or> resp = Json_error 401 ''Invalid signature'')"
proof (cases "truthy (x_github_delivery req)
    \<and> cleanupDeliveryCache (now_cleanup req) (processedDeliveries s) (the (x_github_delivery req)) \<noteq> None")
  case True
  then show ?thesis by (simp add: POST_def Let_def)
next
  case False
  show ?thesis
  proof (cases "truthy (x_github_delivery req)")
    case nodel: False
    with check_signature_invalid [OF assms, of s] show ?thesis
      by (auto simp: POST_def Let_def)
  next
    case del: True
    let ?s1 = "s\<lparr>processedDeliveries :=
       (cleanupDeliveryCache (now_cleanup req) (processedDeliveries s))
         (the (x_github_delivery req) \<mapsto> now_mark req + DELIVERY_CACHE_TTL)\<rparr>"
    from del False have "POST env req s = check_signature env req ?s1"
      by (simp add: POST_def Let_def)
    with check_signature_invalid [OF assms, of ?s1] False show ?thesis by auto
  qed
qed

text \<open>The theorem on a push whose signature header is \<open>sha256=0000\<close>.\<close>

theorem invalid_signature_rejected_witness:
  "\<exists>s'. POST (example_env scenario_A_event)
            ((signed_push (ascii ''d-1'') 1000)\<lparr>x_hub_signature_256 := Some (ascii ''sha256=0000'')\<rparr>)
            example_state
          = (Json_error 401 ''Invalid signature'', s')
        \<and> tasks s' = [] \<and> queue s' = []"
proof -
  let ?req = "(signed_push (ascii ''d-1'') 1000)\<lparr>x_hub_signature_256 := Some (ascii ''sha256=0000'')\<rparr>"
  have a: "GITHUB_WEBHOOK_SECRET (example_env scenario_A_event) = Some (ascii ''s3cret'')"
    by (simp add: example_env_def)
  have b: "ascii ''s3cret'' \<noteq> []" by (simp add: ascii_def)
  have c: "x_hub_signature_256 ?req = None
         \<or> \<not> startsWith (the (x_hub_signature_256 ?req)) (ascii ''sha256='')
         \<or> the (x_hub_signature_256 ?req) \<noteq> ascii ''sha256='' @
              hmac_sha256_hex (example_env scenario_A_event) (ascii ''s3cret'') (body ?req)"
    by (simp add: signed_push_def example_env_def example_hmac_def ascii_def)
  have e: "fst (POST (example_env scenario_A_event) ?req example_state)
            = Json_error 401 ''Invalid signature''"
    by (simp add: handler_defs Let_def)
  from invalid_signature_rejected [OF a b c, of example_state] e
  show ?thesis by (auto simp: example_state_def)
qed

text \<open>
  C7 as stated promises the 401 for every request without a signature. A request
  without a signature whose delivery identifier is recorded gets the duplicate response.
\<close>

theorem duplicate_before_signature_counterexample:
  "x_hub_signature_256 (unsigned_request (ascii ''d-1'') 2000) = None
   \<and> fst (POST (example_env scenario_A_event) (unsigned_request (ascii ''d-1'') 2000)
           (example_state\<lparr>processedDeliveries := [ascii ''d-1'' \<mapsto> 61000]\<rparr>))
       = Json_message ''Duplicate delivery ignored''"
  by (simp add: handler_defs unsigned_request_def Let_def)

subsection \<open>Claim C5: pushes made by the system itself\<close>

text \<open>
  C5, as amended: for every push event whose head commit's message starts with
  \<open>[GitHub Global]\<close>, no translation task is created and no job is enqueued, also
  when commits of the push contain eligible files; a push event on the default branch
  that reaches the check is answered \<open>Self-commit ignored\<close>. The handler reads the
  message of \<open>head_commit\<close> only.
\<close>

theorem self_commit_head_no_task:
  assumes "JSON_parse env (body req) = Some data" "head_commit data = Some hc"
    and "startsWith (head_message hc) (ascii ''[GitHub Global]'')"
  shows "(\<exists>resp s'. POST env req s = (resp, s')
            \<and> tasks s' = tasks s \<and> queue s' = queue s \<and> (\<forall>n fs. resp \<noteq> Task_created n fs))
         \<and> (x_github_event req = Some (ascii ''push'')
              \<and> replace_first (ref data) (ascii ''refs/heads/'') [] = default_branch (repository data)
            \<longrightarrow> handle_event env req s = (Json_message ''Self-commit ignored'', s))"
proof
  show "\<exists>resp s'. POST env req s = (resp, s')
            \<and> tasks s' = tasks s \<and> queue s' = queue s \<and> (\<forall>n fs. resp \<noteq> Task_created n fs)"
  proof (cases "truthy (x_github_delivery req)")
    case False
    with check_signature_self_commit [OF assms, of s] show ?thesis
      by (auto simp: POST_def Let_def)
  next
    case True
    let ?cleaned = "cleanupDeliveryCache (now_cleanup req) (processedDeliveries s)"
    show ?thesis
    proof (cases "?cleaned (the (x_github_delivery req)) \<noteq> None")
      case dup: True
      with True show ?thesis by (simp add: POST_def Let_def)
    next
      case fresh: False
      let ?s1 = "s\<lparr>processedDeliveries :=
         ?cleaned(the (x_github_delivery req) \<mapsto> now_mark req + DELIVERY_CACHE_TTL)\<rparr>"
      from True fresh have "POST env req s = check_signature env req ?s1"
        by (simp add: POST_def Let_def)
      with check_signature_self_commit [OF assms, of ?s1] show ?thesis by auto
    qed
  qed
  show "x_github_event req = Some (ascii ''push'')
          \<and> replace_first (ref data) (ascii ''refs/heads/'') [] = default_branch (repository data)
        \<longrightarrow> handle_event env req s = (Json_message ''Self-commit ignored'', s)"
    using assms by (simp add: handle_event_def Let_def)
qed

text \<open>The theorem on a signed push of two commits with eligible files whose head
  commit carries the marker.\<close>

theorem self_commit_head_no_task_witness:
  "\<exists>s'. POST (example_env self_commit_event) (signed_push (ascii ''d-1'') 1000) example_state
          = (Json_message ''Self-commit ignored'', s')
        \<and> tasks s' = [] \<and> queue s' = []"
proof -
  have a: "JSON_parse (example_env self_commit_event) (body (signed_push (ascii ''d-1'') 1000))
            = Some self_commit_event"
    by (simp add: example_env_def signed_push_def)
  have b: "head_commit self_commit_event
            = Some \<lparr>head_id = ascii ''c2'', head_message = ascii ''[GitHub Global] Add translations''\<rparr>"
    by (simp add: self_commit_event_def)
  have c: "startsWith (head_message \<lparr>head_id = ascii ''c2'',
              head_message = ascii ''[GitHub Global] Add translations''\<rparr>) (ascii ''[GitHub Global]'')"
    by (simp add: startsWith_def ascii_def)
  have e: "fst (POST (example_env self_commit_event) (signed_push (ascii ''d-1'') 1000) example_state)
            = Json_message ''Self-commit ignored''"
    by (simp add: handler_defs self_commit_event_def Let_def)
  from self_commit_head_no_task [OF a b c, of example_state] e
  show ?thesis by (auto simp: example_state_def)
qed

text \<open>
  C5 as stated speaks of some commit of the push. In this push to the default branch the
  first commit carries the marker and the head commit does not: a task is created for
  the files of both commits.
\<close>

theorem marked_commit_counterexample:
  "startsWith (commit_message (hd (commits marked_then_plain_event))) (ascii ''[GitHub Global]'')
   \<and> replace_first (ref marked_then_plain_event) (ascii ''refs/heads/'') []
       = default_branch (repository marked_then_plain_event)
   \<and> fst (POST (example_env marked_then_plain_event) (signed_push (ascii ''d-1'') 1000) example_state)
       = Task_created 0 [ascii ''notes/a.md'', ascii ''docs/guide.md'']"
  by (simp add: handler_defs marked_then_plain_event_def Let_def)

subsection \<open>Claim C2: scenario A\<close>

text \<open>
  C2 states that in scenario A exactly one file is queued, \<open>node_modules/x.md\<close> being
  excluded as a skip directory before the path filter. The handler passes the added and
  modified files of the commits to \<open>filterFilesToTranslate\<close> directly; the list
  \<open>SKIP_DIRECTORIES\<close> is consulted only where the file tree is walked (getFileTree).
  With no include or exclude patterns both files pass the filter, and the job that is
  enqueued holds both.
\<close>

theorem webhook_queues_node_modules:
  "fst (POST (example_env scenario_A_event) (signed_push (ascii ''d-1'') 1000) example_state)
     = Task_created 0 [ascii ''docs/'' @ [0x4ECB, 0x7ECD] @ ascii ''.md'', ascii ''node_modules/x.md'']
   \<and> map job_changedFiles
        (queue (snd (POST (example_env scenario_A_event) (signed_push (ascii ''d-1'') 1000) example_state)))
     = [[ascii ''docs/'' @ [0x4ECB, 0x7ECD] @ ascii ''.md'', ascii ''node_modules/x.md'']]"
  by (simp add: handler_defs scenario_A_event_def Let_def)

end
